theory Spec2Isabelle
  imports Main
begin

section \<open>Run-time values\<close>

text \<open>
  \<^verbatim>\<open>src/src/Either.ts\<close> is TypeScript, so at run time every payload, every argument of
  \<^verbatim>\<open>isNone\<close>, \<^verbatim>\<open>isEither\<close>, \<^verbatim>\<open>isLeft\<close>, \<^verbatim>\<open>isRight\<close> is an untyped JavaScript value.
  The model has the primitives, function values, plain objects whose fields hold
  primitives, and the two kinds of object that \<^verbatim>\<open>left(value)\<close> and \<^verbatim>\<open>right(value)\<close> build.
  Such an object is a record of closures over the one variable \<^verbatim>\<open>value\<close> together with
  the field \<^verbatim>\<open>isEither: true\<close>; it is represented by its constructor and the captured
  \<^verbatim>\<open>value\<close>, and its methods are the functions \<open>left_map\<close>, ..., \<open>right_match\<close> below.
  Two objects are equal in the model when they have the same variant and payload:
  object identity (\<^verbatim>\<open>===\<close> on objects) is not modelled. Numbers are integers.
\<close>

datatype prim = Undefined | Null | Boolean bool | Number int | Str string

datatype 'f jsval =
    Prim prim
  | Function 'f
  | Object "(string \<times> prim) list"
  | LeftObj "'f jsval"
  | RightObj "'f jsval"

text \<open>JavaScript's \<^verbatim>\<open>typeof\<close> and truthiness (the values \<^verbatim>\<open>&&\<close> and \<^verbatim>\<open>?:\<close> branch on).\<close>

fun typeof :: "'f jsval \<Rightarrow> string" where
  "typeof (Prim Undefined) = ''undefined''"
| "typeof (Prim Null) = ''object''"
| "typeof (Prim (Boolean b)) = ''boolean''"
| "typeof (Prim (Number n)) = ''number''"
| "typeof (Prim (Str s)) = ''string''"
| "typeof (Function f) = ''function''"
| "typeof (Object fields) = ''object''"
| "typeof (LeftObj value) = ''object''"
| "typeof (RightObj value) = ''object''"

fun truthy :: "'f jsval \<Rightarrow> bool" where
  "truthy (Prim Undefined) = False"
| "truthy (Prim Null) = False"
| "truthy (Prim (Boolean b)) = b"
| "truthy (Prim (Number n)) = (n \<noteq> 0)"
| "truthy (Prim (Str s)) = (s \<noteq> [])"
| "truthy (Function f) = True"
| "truthy (Object fields) = True"
| "truthy (LeftObj value) = True"
| "truthy (RightObj value) = True"

section \<open>Computations: exceptions and the caller's side effects\<close>

text \<open>
  A call either returns a value or throws, and the functions a caller passes in may
  have side effects (the spec's call counter). A computation therefore maps the state
  \<open>'s\<close> of the outside world to an outcome (\<open>Inl\<close> a thrown error, \<open>Inr\<close> the returned
  value) and the state after it. \<open>TypeError\<close> is what the engine throws when a property
  of \<^verbatim>\<open>null\<close> or \<^verbatim>\<open>undefined\<close> is read or a value that is not a function is called;
  \<open>Thrown\<close> is anything a caller's function throws.
\<close>

datatype 'f error = TypeError | Thrown "'f jsval"

type_synonym ('f, 's) comp = "'s \<Rightarrow> ('f error + 'f jsval) \<times> 's"

text \<open>
  A function passed as an argument (\<^verbatim>\<open>fn\<close>, \<^verbatim>\<open>onLeft\<close>, \<^verbatim>\<open>onRight\<close>) is modelled by the
  computation it runs on one argument: every call in the source passes exactly one.
  It may return, throw and change the state; an argument that is no function at all
  is the computation that throws \<open>TypeError\<close>.
\<close>

type_synonym ('f, 's) fn = "'f jsval \<Rightarrow> ('f, 's) comp"

definition js_return :: "'f jsval \<Rightarrow> ('f, 's) comp" where
  "js_return value s = (Inr value, s)"

definition js_throw :: "'f error \<Rightarrow> ('f, 's) comp" where
  "js_throw e s = (Inl e, s)"

definition js_bind :: "('f, 's) comp \<Rightarrow> ('f, 's) fn \<Rightarrow> ('f, 's) comp" where
  "js_bind m k s = (case m s of (Inl e, s') \<Rightarrow> (Inl e, s') | (Inr value, s') \<Rightarrow> k value s')"

text \<open>\<^verbatim>\<open>a && b\<close>: \<^verbatim>\<open>a\<close> itself when it is falsy, otherwise \<^verbatim>\<open>b\<close>, evaluated only then.\<close>

definition js_and :: "'f jsval \<Rightarrow> ('f, 's) comp \<Rightarrow> ('f, 's) comp" where
  "js_and a b = (if truthy a then b else js_return a)"

text \<open>
  \<^verbatim>\<open>fn(value)\<close> for a function that is a value (the payload of a \<^verbatim>\<open>Right\<close> that
  \<^verbatim>\<open>apply\<close> reads with \<^verbatim>\<open>getValue\<close>): \<open>run\<close> is the engine's application of a function
  value, and calling anything else throws.
\<close>

definition invoke :: "('f \<Rightarrow> ('f, 's) fn) \<Rightarrow> 'f jsval \<Rightarrow> ('f, 's) fn" where
  "invoke run fn value = (case fn of Function f \<Rightarrow> run f value | _ \<Rightarrow> js_throw TypeError)"

section \<open>The constructors and their methods\<close>

text \<open>
  \<^verbatim>\<open>const left = <L>(value: L): Left<L> => ({ isEither: true, ... })\<close>,
  \<^verbatim>\<open>const right = <L, R>(value: R): Right<L, R> => { ...; return { isEither: true, ... } }\<close>
  and \<^verbatim>\<open>const either = right\<close>.
\<close>

definition left :: "'f jsval \<Rightarrow> 'f jsval" where
  "left value = LeftObj value"

definition right :: "'f jsval \<Rightarrow> 'f jsval" where
  "right value = RightObj value"

definition either :: "'f jsval \<Rightarrow> 'f jsval" where
  "either = right"

subsection \<open>The methods of \<^verbatim>\<open>left(value)\<close>\<close>

text \<open>
  \<^verbatim>\<open>map: () => left(value)\<close>, \<^verbatim>\<open>apply: () => left(value)\<close>, \<^verbatim>\<open>flatMap: () => left(value)\<close>,
  \<^verbatim>\<open>getValue: () => value\<close>, \<^verbatim>\<open>orElse: (defaultValue) => defaultValue\<close>,
  \<^verbatim>\<open>getOrElse: (defaultValue) => defaultValue\<close> and
  \<^verbatim>\<open>match: (onLeft, _onRight) => onLeft(value)\<close>. The first three declare no parameter:
  whatever they are called with is ignored.
\<close>

definition left_map :: "'f jsval \<Rightarrow> ('f, 's) fn \<Rightarrow> ('f, 's) comp" where
  "left_map value fn = js_return (left value)"

definition left_apply :: "'f jsval \<Rightarrow> 'f jsval \<Rightarrow> ('f, 's) comp" where
  "left_apply value boxValue = js_return (left value)"

definition left_flatMap :: "'f jsval \<Rightarrow> ('f, 's) fn \<Rightarrow> ('f, 's) comp" where
  "left_flatMap value fn = js_return (left value)"

definition left_getValue :: "'f jsval \<Rightarrow> ('f, 's) comp" where
  "left_getValue value = js_return value"

definition left_orElse :: "'f jsval \<Rightarrow> 'f jsval \<Rightarrow> ('f, 's) comp" where
  "left_orElse value defaultValue = js_return defaultValue"

definition left_getOrElse :: "'f jsval \<Rightarrow> 'f jsval \<Rightarrow> ('f, 's) comp" where
  "left_getOrElse value defaultValue = js_return defaultValue"

definition left_match :: "'f jsval \<Rightarrow> ('f, 's) fn \<Rightarrow> ('f, 's) fn \<Rightarrow> ('f, 's) comp" where
  "left_match value onLeft onRight = onLeft value"

subsection \<open>The methods of \<^verbatim>\<open>right(value)\<close> that do not look at \<^verbatim>\<open>this\<close>\<close>

text \<open>
  \<^verbatim>\<open>map = (fn) => right(fn(value))\<close>, \<^verbatim>\<open>flatMap = (fn) => fn(value)\<close>,
  \<^verbatim>\<open>getValue = () => value\<close>, \<^verbatim>\<open>orElse = (_defaultValue) => right(value)\<close>,
  \<^verbatim>\<open>getOrElse = (_defaultValue) => value\<close> and
  \<^verbatim>\<open>match = (_onLeft, onRight) => onRight(value)\<close>.
\<close>

definition right_map :: "'f jsval \<Rightarrow> ('f, 's) fn \<Rightarrow> ('f, 's) comp" where
  "right_map value fn = js_bind (fn value) (\<lambda>u. js_return (right u))"

definition right_flatMap :: "'f jsval \<Rightarrow> ('f, 's) fn \<Rightarrow> ('f, 's) comp" where
  "right_flatMap value fn = fn value"

definition right_getValue :: "'f jsval \<Rightarrow> ('f, 's) comp" where
  "right_getValue value = js_return value"

definition right_orElse :: "'f jsval \<Rightarrow> 'f jsval \<Rightarrow> ('f, 's) comp" where
  "right_orElse value defaultValue = js_return (right value)"

definition right_getOrElse :: "'f jsval \<Rightarrow> 'f jsval \<Rightarrow> ('f, 's) comp" where
  "right_getOrElse value defaultValue = js_return value"

definition right_match :: "'f jsval \<Rightarrow> ('f, 's) fn \<Rightarrow> ('f, 's) fn \<Rightarrow> ('f, 's) comp" where
  "right_match value onLeft onRight = onRight value"

subsection \<open>Method calls and property reads on an arbitrary value\<close>

text \<open>
  \<^verbatim>\<open>x.map(fn)\<close>, \<^verbatim>\<open>x.getValue()\<close> and \<^verbatim>\<open>x.match(onLeft, onRight)\<close> for any \<^verbatim>\<open>x\<close>: an object
  built by \<^verbatim>\<open>left\<close> or \<^verbatim>\<open>right\<close> runs its method; reading the property of \<^verbatim>\<open>null\<close> or
  \<^verbatim>\<open>undefined\<close> throws; every other value of the model has no function under that name,
  and calling what the read yields throws.
\<close>

fun call_map :: "'f jsval \<Rightarrow> ('f, 's) fn \<Rightarrow> ('f, 's) comp" where
  "call_map (LeftObj value) fn = left_map value fn"
| "call_map (RightObj value) fn = right_map value fn"
| "call_map x fn = js_throw TypeError"

fun call_getValue :: "'f jsval \<Rightarrow> ('f, 's) comp" where
  "call_getValue (LeftObj value) = left_getValue value"
| "call_getValue (RightObj value) = right_getValue value"
| "call_getValue x = js_throw TypeError"

fun call_match :: "'f jsval \<Rightarrow> ('f, 's) fn \<Rightarrow> ('f, 's) fn \<Rightarrow> ('f, 's) comp" where
  "call_match (LeftObj value) onLeft onRight = left_match value onLeft onRight"
| "call_match (RightObj value) onLeft onRight = right_match value onLeft onRight"
| "call_match x onLeft onRight = js_throw TypeError"

text \<open>The property read \<^verbatim>\<open>value.isEither\<close>.\<close>

fun get_isEither :: "'f jsval \<Rightarrow> ('f, 's) comp" where
  "get_isEither (Prim Undefined) = js_throw TypeError"
| "get_isEither (Prim Null) = js_throw TypeError"
| "get_isEither (Prim p) = js_return (Prim Undefined)"
| "get_isEither (Function f) = js_return (Prim Undefined)"
| "get_isEither (Object fields) =
     js_return (case map_of fields ''isEither'' of None \<Rightarrow> Prim Undefined | Some p \<Rightarrow> Prim p)"
| "get_isEither (LeftObj value) = js_return (Prim (Boolean True))"
| "get_isEither (RightObj value) = js_return (Prim (Boolean True))"

section \<open>The predicates\<close>

text \<open>
  \<^verbatim>\<open>isNone = (value) => value === null || value === undefined\<close>,
  \<^verbatim>\<open>isEither = (value) => value && typeof value === "object" && value.isEither === true\<close>,
  \<^verbatim>\<open>isLeft = (value) => isEither(value) && value.match((l) => !isNone(l), () => false)\<close> and
  \<^verbatim>\<open>isRight = (value) => isEither(value) && value.match(() => false, (r) => !isNone(r))\<close>.
  \<^verbatim>\<open>&&\<close> associates to the left and binds weaker than \<^verbatim>\<open>===\<close>.
\<close>

definition isNone :: "'f jsval \<Rightarrow> bool" where
  "isNone value = (value = Prim Null \<or> value = Prim Undefined)"

definition isEither :: "'f jsval \<Rightarrow> ('f, 's) comp" where
  "isEither value =
     js_bind (js_and value (js_return (Prim (Boolean (typeof value = ''object'')))))
       (\<lambda>a. js_and a
          (js_bind (get_isEither value) (\<lambda>p. js_return (Prim (Boolean (p = Prim (Boolean True)))))))"

definition isLeft :: "'f jsval \<Rightarrow> ('f, 's) comp" where
  "isLeft value =
     js_bind (isEither value)
       (\<lambda>e. js_and e
          (call_match value
             (\<lambda>l. js_return (Prim (Boolean (\<not> isNone l))))
             (\<lambda>r. js_return (Prim (Boolean False)))))"

definition isRight :: "'f jsval \<Rightarrow> ('f, 's) comp" where
  "isRight value =
     js_bind (isEither value)
       (\<lambda>e. js_and e
          (call_match value
             (\<lambda>l. js_return (Prim (Boolean False)))
             (\<lambda>r. js_return (Prim (Boolean (\<not> isNone r))))))"

section \<open>\<^verbatim>\<open>apply\<close>\<close>

text \<open>
  \<^verbatim>\<open>right(value).apply\<close> is a \<^verbatim>\<open>function\<close>, not an arrow: it reads the function to apply
  from \<^verbatim>\<open>this\<close>, the object it is called on, and not from the captured \<^verbatim>\<open>value\<close>:
  \<^verbatim>\<open>const fn = this.getValue(); return isLeft(boxValue) ? boxValue : boxValue.map(fn);\<close>
\<close>

definition right_apply ::
  "('f \<Rightarrow> ('f, 's) fn) \<Rightarrow> 'f jsval \<Rightarrow> 'f jsval \<Rightarrow> ('f, 's) comp" where
  "right_apply run this boxValue =
     js_bind (call_getValue this)
       (\<lambda>fn. js_bind (isLeft boxValue)
          (\<lambda>c. if truthy c then js_return boxValue else call_map boxValue (invoke run fn)))"

text \<open>
  The remaining method calls \<^verbatim>\<open>x.apply(boxValue)\<close>, \<^verbatim>\<open>x.flatMap(fn)\<close>,
  \<^verbatim>\<open>x.orElse(defaultValue)\<close> and \<^verbatim>\<open>x.getOrElse(defaultValue)\<close>.
\<close>

fun call_apply :: "('f \<Rightarrow> ('f, 's) fn) \<Rightarrow> 'f jsval \<Rightarrow> 'f jsval \<Rightarrow> ('f, 's) comp" where
  "call_apply run (LeftObj value) boxValue = left_apply value boxValue"
| "call_apply run (RightObj value) boxValue = right_apply run (RightObj value) boxValue"
| "call_apply run x boxValue = js_throw TypeError"

fun call_flatMap :: "'f jsval \<Rightarrow> ('f, 's) fn \<Rightarrow> ('f, 's) comp" where
  "call_flatMap (LeftObj value) fn = left_flatMap value fn"
| "call_flatMap (RightObj value) fn = right_flatMap value fn"
| "call_flatMap x fn = js_throw TypeError"

fun call_orElse :: "'f jsval \<Rightarrow> 'f jsval \<Rightarrow> ('f, 's) comp" where
  "call_orElse (LeftObj value) defaultValue = left_orElse value defaultValue"
| "call_orElse (RightObj value) defaultValue = right_orElse value defaultValue"
| "call_orElse x defaultValue = js_throw TypeError"

fun call_getOrElse :: "'f jsval \<Rightarrow> 'f jsval \<Rightarrow> ('f, 's) comp" where
  "call_getOrElse (LeftObj value) defaultValue = left_getOrElse value defaultValue"
| "call_getOrElse (RightObj value) defaultValue = right_getOrElse value defaultValue"
| "call_getOrElse x defaultValue = js_throw TypeError"

subsection \<open>The symbolic aliases\<close>

text \<open>
  \<^verbatim>\<open>left\<close> writes the closures under \<^verbatim>\<open>"<$>"\<close>, \<^verbatim>\<open>"<*>"\<close> and \<^verbatim>\<open>">>="\<close> out again;
  \<^verbatim>\<open>right\<close> stores its \<^verbatim>\<open>map\<close>, \<^verbatim>\<open>apply\<close> and \<^verbatim>\<open>flatMap\<close> under the three names.
\<close>

definition left_op_map :: "'f jsval \<Rightarrow> ('f, 's) fn \<Rightarrow> ('f, 's) comp" where
  "left_op_map value fn = js_return (left value)"

definition left_op_apply :: "'f jsval \<Rightarrow> 'f jsval \<Rightarrow> ('f, 's) comp" where
  "left_op_apply value boxValue = js_return (left value)"

definition left_op_flatMap :: "'f jsval \<Rightarrow> ('f, 's) fn \<Rightarrow> ('f, 's) comp" where
  "left_op_flatMap value fn = js_return (left value)"

fun call_op_map :: "'f jsval \<Rightarrow> ('f, 's) fn \<Rightarrow> ('f, 's) comp" where
  "call_op_map (LeftObj value) fn = left_op_map value fn"
| "call_op_map (RightObj value) fn = right_map value fn"
| "call_op_map x fn = js_throw TypeError"

fun call_op_apply :: "('f \<Rightarrow> ('f, 's) fn) \<Rightarrow> 'f jsval \<Rightarrow> 'f jsval \<Rightarrow> ('f, 's) comp" where
  "call_op_apply run (LeftObj value) boxValue = left_op_apply value boxValue"
| "call_op_apply run (RightObj value) boxValue = right_apply run (RightObj value) boxValue"
| "call_op_apply run x boxValue = js_throw TypeError"

fun call_op_flatMap :: "'f jsval \<Rightarrow> ('f, 's) fn \<Rightarrow> ('f, 's) comp" where
  "call_op_flatMap (LeftObj value) fn = left_op_flatMap value fn"
| "call_op_flatMap (RightObj value) fn = right_flatMap value fn"
| "call_op_flatMap x fn = js_throw TypeError"

section \<open>Vocabulary of the properties\<close>

text \<open>The objects the two constructors build: the values of type \<^verbatim>\<open>Either<L, R>\<close>.\<close>

fun either_object :: "'f jsval \<Rightarrow> bool" where
  "either_object (LeftObj value) = True"
| "either_object (RightObj value) = True"
| "either_object x = False"

text \<open>An outcome that is a returned value, and a function that never throws.\<close>

fun returns :: "('f error + 'f jsval) \<times> 's \<Rightarrow> bool" where
  "returns (Inr value, s) = True"
| "returns (Inl e, s) = False"

definition nonThrowing :: "('f, 's) fn \<Rightarrow> bool" where
  "nonThrowing fn = (\<forall>value s. returns (fn value s))"

text \<open>
  What the spec calls a structurally tagged \<^verbatim>\<open>Either\<close> instance: an object whose
  \<^verbatim>\<open>isEither\<close> field is the tag value \<^verbatim>\<open>true\<close>.
\<close>

fun structurally_tagged :: "'f jsval \<Rightarrow> bool" where
  "structurally_tagged (Object fields) = (map_of fields ''isEither'' = Some (Boolean True))"
| "structurally_tagged (LeftObj value) = True"
| "structurally_tagged (RightObj value) = True"
| "structurally_tagged x = False"

text \<open>
  Example functions for concrete runs: \<open>counting h\<close> returns \<open>h\<close> of its argument, never
  throws and counts its calls (the state is the number of calls so far);
  \<open>add_one\<close> is \<^verbatim>\<open>x => x + 1\<close> on numbers.
\<close>

definition counting :: "('f jsval \<Rightarrow> 'f jsval) \<Rightarrow> ('f, nat) fn" where
  "counting h value n = (Inr (h value), Suc n)"

fun add_one :: "'f jsval \<Rightarrow> 'f jsval" where
  "add_one (Prim (Number k)) = Prim (Number (k + 1))"
| "add_one x = x"

text \<open>The two boolean results, as values.\<close>

abbreviation js_true :: "'f jsval" where
  "js_true \<equiv> Prim (Boolean True)"

abbreviation js_false :: "'f jsval" where
  "js_false \<equiv> Prim (Boolean False)"

section \<open>Basic facts\<close>

lemma js_bind_return: "js_bind (js_return value) k = k value"
  by (rule ext) (simp add: js_bind_def js_return_def)

lemma js_bind_throw: "js_bind (js_throw e) k = js_throw e"
  by (rule ext) (simp add: js_bind_def js_throw_def)

lemma js_bind_return_right: "js_bind m js_return = m"
  by (rule ext) (simp add: js_bind_def js_return_def split: prod.splits sum.splits)

lemma js_bind_assoc: "js_bind (js_bind m f) g = js_bind m (\<lambda>x. js_bind (f x) g)"
  by (rule ext) (simp add: js_bind_def split: prod.splits sum.splits)

subsection \<open>What the predicates compute\<close>

lemma isEither_value:
  "isEither v s =
     (Inr (if \<not> truthy v then v
           else Prim (Boolean (case v of
                  Object fields \<Rightarrow> map_of fields ''isEither'' = Some (Boolean True)
                | LeftObj x \<Rightarrow> True | RightObj x \<Rightarrow> True | _ \<Rightarrow> False))), s)"
proof (cases v)
  case (Prim p)
  then show ?thesis
    by (cases p) (simp_all add: isEither_def js_and_def js_bind_def js_return_def)
qed (simp_all add: isEither_def js_and_def js_bind_def js_return_def split: option.splits)

lemma isLeft_LeftObj: "isLeft (LeftObj l) s = (Inr (Prim (Boolean (\<not> isNone l))), s)"
  by (simp add: isLeft_def js_bind_def isEither_value js_and_def left_match_def js_return_def)

lemma isLeft_RightObj: "isLeft (RightObj r) s = (Inr js_false, s)"
  by (simp add: isLeft_def js_bind_def isEither_value js_and_def right_match_def js_return_def)

lemma isRight_LeftObj: "isRight (LeftObj l) s = (Inr js_false, s)"
  by (simp add: isRight_def js_bind_def isEither_value js_and_def left_match_def js_return_def)

lemma isRight_RightObj: "isRight (RightObj r) s = (Inr (Prim (Boolean (\<not> isNone r))), s)"
  by (simp add: isRight_def js_bind_def isEither_value js_and_def right_match_def js_return_def)

lemma isLeft_other: "\<not> either_object v \<Longrightarrow> isLeft v s \<noteq> (Inr js_true, s)"
  by (cases v)
    (auto simp add: isLeft_def js_bind_def isEither_value js_and_def js_return_def js_throw_def
      split: if_splits)

lemma isRight_other: "\<not> either_object v \<Longrightarrow> isRight v s \<noteq> (Inr js_true, s)"
  by (cases v)
    (auto simp add: isRight_def js_bind_def isEither_value js_and_def js_return_def js_throw_def
      split: if_splits)

lemma isLeft_true_iff: "(isLeft v s = (Inr js_true, s)) = (\<exists>l. v = left l \<and> \<not> isNone l)"
proof (cases "either_object v")
  case True
  then show ?thesis
    by (cases v) (simp_all add: isLeft_LeftObj isLeft_RightObj left_def)
next
  case False
  then show ?thesis
    using isLeft_other [OF False, of s] by (auto simp add: left_def)
qed

lemma isRight_true_iff: "(isRight v s = (Inr js_true, s)) = (\<exists>r. v = right r \<and> \<not> isNone r)"
proof (cases "either_object v")
  case True
  then show ?thesis
    by (cases v) (simp_all add: isRight_LeftObj isRight_RightObj right_def)
next
  case False
  then show ?thesis
    using isRight_other [OF False, of s] by (auto simp add: right_def)
qed

text \<open>
  A tagged value whose \<^verbatim>\<open>match\<close> runs the \<^verbatim>\<open>Left\<close> handler on \<open>l\<close>, whatever the two
  handlers are, is \<^verbatim>\<open>left(l)\<close>, and likewise for \<^verbatim>\<open>Right\<close>.
\<close>

lemma left_branch_fires:
  "(isEither v s = (Inr js_true, s) \<and>
    (\<forall>onLeft onRight. call_match v onLeft onRight s = onLeft l s)) = (v = left l)"
proof
  assume "isEither v s = (Inr js_true, s) \<and>
    (\<forall>onLeft onRight. call_match v onLeft onRight s = onLeft l s)"
  then have "call_match v (\<lambda>x. js_return x) (\<lambda>x. js_throw TypeError) s = js_return l s"
    by blast
  then show "v = left l"
    by (cases v)
      (simp_all add: left_def left_match_def right_match_def js_return_def js_throw_def)
next
  assume "v = left l"
  then show "isEither v s = (Inr js_true, s) \<and>
    (\<forall>onLeft onRight. call_match v onLeft onRight s = onLeft l s)"
    by (simp add: left_def isEither_value left_match_def)
qed

lemma right_branch_fires:
  "(isEither v s = (Inr js_true, s) \<and>
    (\<forall>onLeft onRight. call_match v onLeft onRight s = onRight r s)) = (v = right r)"
proof
  assume "isEither v s = (Inr js_true, s) \<and>
    (\<forall>onLeft onRight. call_match v onLeft onRight s = onRight r s)"
  then have "call_match v (\<lambda>x. js_throw TypeError) (\<lambda>x. js_return x) s = js_return r s"
    by blast
  then show "v = right r"
    by (cases v)
      (simp_all add: right_def left_match_def right_match_def js_return_def js_throw_def)
next
  assume "v = right r"
  then show "isEither v s = (Inr js_true, s) \<and>
    (\<forall>onLeft onRight. call_match v onLeft onRight s = onRight r s)"
    by (simp add: right_def isEither_value right_match_def)
qed

subsection \<open>Outcomes that are returned values\<close>

lemma returns_js_return: "returns (js_return v s)"
  by (simp add: js_return_def)

lemma returns_js_bind:
  "returns (m s) \<Longrightarrow> (\<And>v s'. returns (k v s')) \<Longrightarrow> returns (js_bind m k s)"
  by (cases "m s" rule: returns.cases) (simp_all add: js_bind_def)

lemma returns_nonThrowing: "nonThrowing fn \<Longrightarrow> returns (fn v s)"
  by (simp add: nonThrowing_def)

lemma nonThrowing_counting: "nonThrowing (counting h)"
  by (simp add: nonThrowing_def counting_def)

lemma returns_isEither: "returns (isEither x s)"
  by (simp add: isEither_value)

lemma returns_call_map:
  "either_object m \<Longrightarrow> nonThrowing fn \<Longrightarrow>
     returns (call_map m fn s) \<and> returns (call_op_map m fn s)"
  by (cases m)
    (simp_all add: left_map_def left_op_map_def right_map_def returns_js_return returns_js_bind
      returns_nonThrowing)

lemma returns_call_flatMap:
  "either_object m \<Longrightarrow> nonThrowing fn \<Longrightarrow>
     returns (call_flatMap m fn s) \<and> returns (call_op_flatMap m fn s)"
  by (cases m)
    (simp_all add: left_flatMap_def left_op_flatMap_def right_flatMap_def returns_js_return
      returns_nonThrowing)

lemma returns_call_match:
  "either_object m \<Longrightarrow> nonThrowing onLeft \<Longrightarrow> nonThrowing onRight \<Longrightarrow>
     returns (call_match m onLeft onRight s)"
  by (cases m) (simp_all add: left_match_def right_match_def returns_nonThrowing)

lemma returns_extract:
  "either_object m \<Longrightarrow>
     returns (call_getValue m s) \<and> returns (call_orElse m d s) \<and> returns (call_getOrElse m d s)"
  by (cases m)
    (simp_all add: left_getValue_def right_getValue_def left_orElse_def right_orElse_def
      left_getOrElse_def right_getOrElse_def returns_js_return)

lemma returns_isLeft_isRight:
  "either_object m \<Longrightarrow> returns (isLeft m s) \<and> returns (isRight m s)"
  by (cases m) (simp_all add: isLeft_LeftObj isLeft_RightObj isRight_LeftObj isRight_RightObj)

lemma returns_right_apply:
  assumes "either_object boxValue" "nonThrowing (run g)"
  shows "returns (right_apply run (RightObj (Function g)) boxValue s)"
proof (cases boxValue)
  case (LeftObj l)
  then show ?thesis
    by (simp add: right_apply_def right_getValue_def js_bind_def js_return_def isLeft_LeftObj
        left_map_def)
next
  case (RightObj a)
  have "returns (js_bind (run g a) (\<lambda>u. js_return (right u)) s)"
    using assms(2) by (intro returns_js_bind returns_nonThrowing returns_js_return)
  with RightObj show ?thesis
    by (simp add: right_apply_def right_getValue_def js_bind_def js_return_def isLeft_RightObj
        right_map_def invoke_def)
qed (use assms(1) in simp_all)

lemma returns_call_apply:
  assumes "either_object boxValue"
    "mf = left e \<or> (\<exists>g. mf = right (Function g) \<and> nonThrowing (run g))"
  shows "returns (call_apply run mf boxValue s) \<and> returns (call_op_apply run mf boxValue s)"
  using assms(2)
proof
  assume "mf = left e"
  then show ?thesis
    by (simp add: left_def left_apply_def left_op_apply_def returns_js_return)
next
  assume "\<exists>g. mf = right (Function g) \<and> nonThrowing (run g)"
  then obtain g where "mf = right (Function g)" "nonThrowing (run g)"
    by blast
  then show ?thesis
    using returns_right_apply [OF assms(1), of run g s] by (simp add: right_def)
qed

text \<open>
  Outside the declared types the engine does throw: a method call on \<^verbatim>\<open>null\<close>, \<^verbatim>\<open>isLeft\<close>
  on an object that carries the tag and no \<^verbatim>\<open>match\<close>, \<^verbatim>\<open>apply\<close> on a \<^verbatim>\<open>Right\<close> whose
  payload is not a function.
\<close>

lemma throws_outside_the_types:
  "call_map (Prim Null) fn s = (Inl TypeError, s) \<and>
   isLeft (Object [(''isEither'', Boolean True)]) s = (Inl TypeError, s) \<and>
   call_apply run (right (Prim Null)) (right a) s = (Inl TypeError, s)"
proof -
  have a: "call_map (Prim Null) fn s = (Inl TypeError, s)"
    by (simp add: js_throw_def)
  have b: "isLeft (Object [(''isEither'', Boolean True)]) s = (Inl TypeError, s)"
    by (simp add: isLeft_def isEither_value js_bind_def js_and_def js_throw_def)
  have c: "call_apply run (right (Prim Null)) (right a) s = (Inl TypeError, s)"
    by (simp add: right_def right_apply_def right_getValue_def js_bind_def js_return_def
        isLeft_RightObj right_map_def invoke_def js_throw_def)
  show ?thesis
    using a b c by simp
qed


subsection \<open>A call counter\<close>

text \<open>
  The state records the calls of the caller's functions: \<^verbatim>\<open>map\<close> on a \<^verbatim>\<open>Right\<close> calls
  the counting function once, \<^verbatim>\<open>map\<close> on a \<^verbatim>\<open>Left\<close> does not call it.
\<close>

lemma call_counter_example:
  "call_map (right v) (counting h) 0 = (Inr (right (h v)), 1) \<and>
   call_map (left e) (counting h) 0 = (Inr (left e), 0)"
  by (simp add: right_def left_def right_map_def left_map_def js_bind_def js_return_def
      counting_def)

section \<open>The classification predicates \<^verbatim>\<open>isLeft\<close> and \<^verbatim>\<open>isRight\<close>\<close>

text \<open>
  C1. For every value \<open>v\<close>, \<^verbatim>\<open>isLeft(v)\<close> is \<^verbatim>\<open>true\<close> exactly when \<open>v\<close> is a tagged
  \<^verbatim>\<open>Either\<close> (\<^verbatim>\<open>isEither(v)\<close> is \<^verbatim>\<open>true\<close>) whose \<^verbatim>\<open>match\<close> runs the \<^verbatim>\<open>Left\<close> handler on a
  payload that is not null-like, that is, when \<open>v\<close> is \<^verbatim>\<open>left(l)\<close> for some \<open>l\<close> that is
  neither \<^verbatim>\<open>null\<close> nor \<^verbatim>\<open>undefined\<close>; \<^verbatim>\<open>isRight(v)\<close> is \<^verbatim>\<open>true\<close> exactly when the same
  holds of the \<^verbatim>\<open>Right\<close> handler. In particular \<^verbatim>\<open>isLeft(left("e"))\<close> is \<^verbatim>\<open>true\<close>,
  \<^verbatim>\<open>isRight(left("e"))\<close> is \<^verbatim>\<open>false\<close>, and \<^verbatim>\<open>left(null)\<close> is neither:
  \<^verbatim>\<open>isLeft(left(null))\<close> and \<^verbatim>\<open>isRight(left(null))\<close> are both \<^verbatim>\<open>false\<close>.
\<close>

theorem isLeft_isRight_classification:
  "(isLeft v s = (Inr js_true, s)) =
     (isEither v s = (Inr js_true, s) \<and>
      (\<exists>l. (\<forall>onLeft onRight. call_match v onLeft onRight s = onLeft l s) \<and> \<not> isNone l)) \<and>
   (isLeft v s = (Inr js_true, s)) = (\<exists>l. v = left l \<and> \<not> isNone l) \<and>
   (isRight v s = (Inr js_true, s)) =
     (isEither v s = (Inr js_true, s) \<and>
      (\<exists>r. (\<forall>onLeft onRight. call_match v onLeft onRight s = onRight r s) \<and> \<not> isNone r)) \<and>
   (isRight v s = (Inr js_true, s)) = (\<exists>r. v = right r \<and> \<not> isNone r) \<and>
   isLeft (left (Prim (Str ''e''))) s = (Inr js_true, s) \<and>
   isRight (left (Prim (Str ''e''))) s = (Inr js_false, s) \<and>
   isLeft (left (Prim Null)) s = (Inr js_false, s) \<and>
   isRight (left (Prim Null)) s = (Inr js_false, s)"
proof -
  have l: "(isLeft v s = (Inr js_true, s)) = (\<exists>l. v = left l \<and> \<not> isNone l)"
    by (rule isLeft_true_iff)
  have r: "(isRight v s = (Inr js_true, s)) = (\<exists>r. v = right r \<and> \<not> isNone r)"
    by (rule isRight_true_iff)
  have lm: "(\<exists>l. v = left l \<and> \<not> isNone l) =
     (isEither v s = (Inr js_true, s) \<and>
      (\<exists>l. (\<forall>onLeft onRight. call_match v onLeft onRight s = onLeft l s) \<and> \<not> isNone l))"
    using left_branch_fires [of v s] by blast
  have rm: "(\<exists>r. v = right r \<and> \<not> isNone r) =
     (isEither v s = (Inr js_true, s) \<and>
      (\<exists>r. (\<forall>onLeft onRight. call_match v onLeft onRight s = onRight r s) \<and> \<not> isNone r))"
    using right_branch_fires [of v s] by blast
  have e: "isLeft (left (Prim (Str ''e''))) s = (Inr js_true, s)"
    "isRight (left (Prim (Str ''e''))) s = (Inr js_false, s)"
    "isLeft (left (Prim Null)) s = (Inr js_false, s)"
    "isRight (left (Prim Null)) s = (Inr js_false, s)"
    by (simp_all add: left_def isLeft_LeftObj isRight_LeftObj isNone_def)
  show ?thesis
    using l r lm rm e by simp
qed

section \<open>Failure propagation and elimination\<close>

text \<open>
  C3. Left absorption: on \<^verbatim>\<open>left(e)\<close>, \<^verbatim>\<open>map(fn)\<close>, \<^verbatim>\<open>flatMap(fn)\<close> and \<^verbatim>\<open>apply(boxValue)\<close>
  each return \<^verbatim>\<open>Left(e)\<close>, for every function \<open>fn\<close> and every argument box, and leave
  the state of the world as it was: \<open>fn\<close> is not invoked, whatever it would have
  returned, thrown or changed (a call counter it increments stays where it was).
\<close>

theorem left_absorption:
  "call_map (left e) fn s = (Inr (left e), s) \<and>
   call_flatMap (left e) fn s = (Inr (left e), s) \<and>
   call_apply run (left e) boxValue s = (Inr (left e), s)"
  by (simp add: left_def left_map_def left_flatMap_def left_apply_def js_return_def)

text \<open>
  C8. \<^verbatim>\<open>match(onLeft, onRight)\<close> on \<^verbatim>\<open>left(l)\<close> is the call \<^verbatim>\<open>onLeft(l)\<close> and on
  \<^verbatim>\<open>right(r)\<close> the call \<^verbatim>\<open>onRight(r)\<close>: its result and its effect are those of that one
  call of that one handler on the held payload, so the other handler, whatever it
  is, is not invoked.
\<close>

theorem match_dispatch:
  "call_match (left l) onLeft onRight = onLeft l \<and>
   call_match (right r) onLeft onRight = onRight r"
  by (simp add: left_def right_def left_match_def right_match_def)

text \<open>
  C6. \<^verbatim>\<open>right(v).orElse(d)\<close> returns \<^verbatim>\<open>Right(v)\<close> and ignores \<open>d\<close>; \<^verbatim>\<open>left(e).orElse(d)\<close>
  returns \<open>d\<close> as it is; \<^verbatim>\<open>right(v).getOrElse(x)\<close> returns \<open>v\<close> and ignores \<open>x\<close>;
  \<^verbatim>\<open>left(e).getOrElse(x)\<close> returns the bare \<open>x\<close>, not wrapped. (The \<^verbatim>\<open>Right\<close> that
  \<^verbatim>\<open>orElse\<close> returns is \<^verbatim>\<open>right(value)\<close>: the receiver's variant and payload, which is
  what equality of \<^verbatim>\<open>Either\<close> values means here.)
\<close>

theorem orElse_getOrElse:
  "call_orElse (right v) d s = (Inr (right v), s) \<and>
   call_orElse (left e) d s = (Inr d, s) \<and>
   call_getOrElse (right v) x s = (Inr v, s) \<and>
   call_getOrElse (left e) x s = (Inr x, s)"
  by (simp add: left_def right_def left_orElse_def right_orElse_def left_getOrElse_def
      right_getOrElse_def js_return_def)

section \<open>\<^verbatim>\<open>apply\<close>: which failure wins\<close>

text \<open>
  C2. Receiver precedence of \<^verbatim>\<open>apply\<close>. On a \<^verbatim>\<open>Left\<close> receiver the result is that
  \<^verbatim>\<open>Left\<close> for every argument box whatsoever (the box is not inspected), so
  \<^verbatim>\<open>left("fn-error").apply(left("arg-error"))\<close> is \<^verbatim>\<open>Left("fn-error")\<close>. On a receiver
  \<^verbatim>\<open>right(f)\<close> with the argument box \<^verbatim>\<open>left(e)\<close> the result is \<^verbatim>\<open>Left(e)\<close>, so
  \<^verbatim>\<open>right(f).apply(left("arg-error"))\<close> is \<^verbatim>\<open>Left("arg-error")\<close>. On a receiver
  \<^verbatim>\<open>right(g)\<close> holding a function and the argument box \<^verbatim>\<open>right(a)\<close> the result is
  \<^verbatim>\<open>Right(g(a))\<close>: the one call \<^verbatim>\<open>g(a)\<close>, its result wrapped by \<^verbatim>\<open>right\<close>.
\<close>

theorem apply_precedence:
  "call_apply run (left e) boxValue s = (Inr (left e), s) \<and>
   call_apply run (right f) (left e) s = (Inr (left e), s) \<and>
   call_apply run (right (Function g)) (right a) =
     js_bind (run g a) (\<lambda>u. js_return (right u)) \<and>
   call_apply run (left (Prim (Str ''fn-error''))) (left (Prim (Str ''arg-error''))) s =
     (Inr (left (Prim (Str ''fn-error''))), s) \<and>
   call_apply run (right f) (left (Prim (Str ''arg-error''))) s =
     (Inr (left (Prim (Str ''arg-error''))), s)"
proof -
  have a: "call_apply run (left e) boxValue s = (Inr (left e), s)" for e boxValue
    by (simp add: left_def left_apply_def js_return_def)
  have b: "call_apply run (right f) (left e) s = (Inr (left e), s)" for e
    by (simp add: left_def right_def right_apply_def right_getValue_def js_bind_def
        js_return_def isLeft_LeftObj left_map_def)
  have c: "call_apply run (right (Function g)) (right a) =
      js_bind (run g a) (\<lambda>u. js_return (right u))"
    by (rule ext)
      (simp add: right_def right_apply_def right_getValue_def js_bind_def js_return_def
        isLeft_RightObj right_map_def invoke_def)
  show ?thesis
    using a b c by simp
qed

text \<open>
  C10. When the argument box of \<^verbatim>\<open>right(f).apply\<close> is \<^verbatim>\<open>left(e)\<close> with \<open>e\<close> null-like,
  the guard \<^verbatim>\<open>isLeft(boxValue)\<close> is \<^verbatim>\<open>false\<close>, so the call takes the fallback path
  \<^verbatim>\<open>boxValue.map(fn)\<close>; that is the \<^verbatim>\<open>map\<close> of a \<^verbatim>\<open>Left\<close>, which ignores the function, and
  the result is still \<^verbatim>\<open>Left(e)\<close> with the state of the world as it was: \<open>f\<close> is not
  invoked, whatever \<open>f\<close> is.
\<close>

theorem apply_null_left:
  "isNone e \<Longrightarrow>
     isLeft (left e) s = (Inr js_false, s) \<and>
     call_apply run (right f) (left e) = call_map (left e) (invoke run f) \<and>
     call_apply run (right f) (left e) s = (Inr (left e), s)"
  by (auto simp add: left_def right_def right_apply_def right_getValue_def js_bind_def
        js_return_def isLeft_LeftObj left_map_def)

theorem apply_null_left_witness:
  "isNone (Prim Null :: nat jsval) \<and>
   isLeft (left (Prim Null) :: nat jsval) (0::nat) = (Inr js_false, 0) \<and>
   call_apply (\<lambda>f. counting add_one) (right (Function (0::nat))) (left (Prim Null)) 0 =
     (Inr (left (Prim Null)), 0)"
proof -
  have h: "isNone (Prim Null :: nat jsval)"
    by (simp add: isNone_def)
  show ?thesis
    using h apply_null_left [OF h, of "0::nat" "\<lambda>f. counting add_one" "Function (0::nat)"]
    by blast
qed

section \<open>The laws\<close>

text \<open>
  In the laws, two sides are equal as computations: the same outcome and the same
  effect from every state, so that the calls of the caller's functions agree too.
  The identity function is \<open>js_return\<close>, and \<^verbatim>\<open>x => g(f(x))\<close> is
  \<open>\<lambda>x. js_bind (f x) g\<close>.
\<close>

text \<open>
  C5. The functor laws of \<^verbatim>\<open>map\<close>, for every \<^verbatim>\<open>Either\<close> \<open>m\<close>: \<^verbatim>\<open>m.map(identity)\<close> equals
  \<open>m\<close>, and \<^verbatim>\<open>m.map(f).map(g)\<close> equals \<^verbatim>\<open>m.map(x => g(f(x)))\<close>. On \<^verbatim>\<open>right(v)\<close>, \<^verbatim>\<open>map(f)\<close>
  is the call \<^verbatim>\<open>f(v)\<close> with its result wrapped by \<^verbatim>\<open>right\<close>: for a function that
  computes \<open>h\<close> and does nothing else, \<^verbatim>\<open>Right(h(v))\<close>.
\<close>

theorem functor_laws:
  "either_object m \<Longrightarrow>
     call_map m js_return = js_return m \<and>
     js_bind (call_map m f) (\<lambda>m'. call_map m' g) = call_map m (\<lambda>x. js_bind (f x) g) \<and>
     call_map (right v) f = js_bind (f v) (\<lambda>u. js_return (right u)) \<and>
     call_map (right v) (\<lambda>x. js_return (h x)) s = (Inr (right (h v)), s)"
proof -
  assume m: "either_object m"
  have id: "call_map m js_return = js_return m"
    using m by (cases m) (simp_all add: left_map_def right_map_def left_def right_def js_bind_return)
  have comp: "js_bind (call_map m f) (\<lambda>m'. call_map m' g) = call_map m (\<lambda>x. js_bind (f x) g)"
    using m
    by (cases m)
      (simp_all add: left_map_def right_map_def left_def right_def js_bind_return js_bind_assoc)
  have r: "call_map (right v) f = js_bind (f v) (\<lambda>u. js_return (right u))"
    by (simp add: right_def right_map_def)
  have p: "call_map (right v) (\<lambda>x. js_return (h x)) s = (Inr (right (h v)), s)"
    by (simp add: right_def right_map_def js_bind_return) (simp add: js_return_def)
  show ?thesis
    using id comp r p by blast
qed

theorem functor_laws_witness:
  "either_object (right (Prim (Number 5)) :: nat jsval) \<and>
   call_map (right (Prim (Number 5)) :: nat jsval) js_return (0::nat) =
     (Inr (right (Prim (Number 5))), 0) \<and>
   js_bind (call_map (right (Prim (Number 5)) :: nat jsval) (counting add_one))
     (\<lambda>m'. call_map m' (counting add_one)) 0 =
     (Inr (right (Prim (Number 7))), 2)"
proof -
  have h: "either_object (right (Prim (Number 5)) :: nat jsval)"
    by (simp add: right_def)
  note laws = functor_laws [OF h, of "counting add_one" "counting add_one"]
  have a: "call_map (right (Prim (Number 5)) :: nat jsval) js_return (0::nat) =
     js_return (right (Prim (Number 5))) 0"
    using laws by (rule conjunct1 [THEN fun_cong])
  have b: "js_bind (call_map (right (Prim (Number 5)) :: nat jsval) (counting add_one))
      (\<lambda>m'. call_map m' (counting add_one)) 0 =
     call_map (right (Prim (Number 5)))
      (\<lambda>x. js_bind (counting add_one x) (counting add_one)) 0"
    using laws by (rule conjunct2 [THEN conjunct1, THEN fun_cong])
  have c: "call_map (right (Prim (Number 5)) :: nat jsval)
      (\<lambda>x. js_bind (counting add_one x) (counting add_one)) 0 =
     (Inr (right (Prim (Number 7))), 2)"
    by (simp add: right_def right_map_def js_bind_def js_return_def counting_def)
  show ?thesis
    using h a b c by (simp only: js_return_def)
qed

text \<open>
  C4. The monad laws of \<^verbatim>\<open>flatMap\<close>: \<^verbatim>\<open>right(x).flatMap(f)\<close> equals \<^verbatim>\<open>f(x)\<close>; for every
  \<^verbatim>\<open>Either\<close> \<open>m\<close>, \<^verbatim>\<open>m.flatMap(right)\<close> equals \<open>m\<close>, and \<^verbatim>\<open>m.flatMap(f).flatMap(g)\<close>
  equals \<^verbatim>\<open>m.flatMap(x => f(x).flatMap(g))\<close>.
\<close>

theorem monad_laws:
  "either_object m \<Longrightarrow>
     call_flatMap (right x) f = f x \<and>
     call_flatMap m (\<lambda>x. js_return (right x)) = js_return m \<and>
     js_bind (call_flatMap m f) (\<lambda>m'. call_flatMap m' g) =
       call_flatMap m (\<lambda>x. js_bind (f x) (\<lambda>m'. call_flatMap m' g))"
  by (cases m)
    (simp_all add: left_flatMap_def right_flatMap_def left_def right_def js_bind_return)

theorem monad_laws_witness:
  "either_object (right (Prim (Number 5)) :: nat jsval) \<and>
   call_flatMap (right (Prim (Number 5)) :: nat jsval) (counting (\<lambda>x. right (add_one x))) 0 =
     (Inr (right (Prim (Number 6))), 1) \<and>
   call_flatMap (right (Prim (Number 5)) :: nat jsval) (\<lambda>x. js_return (right x)) (0::nat) =
     (Inr (right (Prim (Number 5))), 0) \<and>
   js_bind (call_flatMap (right (Prim (Number 5)) :: nat jsval) (counting (\<lambda>x. right (add_one x))))
     (\<lambda>m'. call_flatMap m' (counting (\<lambda>x. right (add_one x)))) 0 =
     (Inr (right (Prim (Number 7))), 2)"
proof -
  have h: "either_object (right (Prim (Number 5)) :: nat jsval)"
    by (simp add: right_def)
  note laws = monad_laws [OF h, of "Prim (Number 5)" "counting (\<lambda>x. right (add_one x))"
      "counting (\<lambda>x. right (add_one x))"]
  have a: "call_flatMap (right (Prim (Number 5)) :: nat jsval) (counting (\<lambda>x. right (add_one x))) 0 =
     counting (\<lambda>x. right (add_one x)) (Prim (Number 5)) 0"
    using laws by (rule conjunct1 [THEN fun_cong])
  have b: "call_flatMap (right (Prim (Number 5)) :: nat jsval) (\<lambda>x. js_return (right x)) (0::nat) =
     js_return (right (Prim (Number 5))) 0"
    using laws by (rule conjunct2 [THEN conjunct1, THEN fun_cong])
  have c: "js_bind (call_flatMap (right (Prim (Number 5)) :: nat jsval) (counting (\<lambda>x. right (add_one x))))
     (\<lambda>m'. call_flatMap m' (counting (\<lambda>x. right (add_one x)))) 0 =
     call_flatMap (right (Prim (Number 5)) :: nat jsval)
      (\<lambda>x. js_bind (counting (\<lambda>x. right (add_one x)) x)
         (\<lambda>m'. call_flatMap m' (counting (\<lambda>x. right (add_one x))))) 0"
    using laws by (rule conjunct2 [THEN conjunct2, THEN fun_cong])
  have d: "call_flatMap (right (Prim (Number 5)) :: nat jsval)
      (\<lambda>x. js_bind (counting (\<lambda>x. right (add_one x)) x)
         (\<lambda>m'. call_flatMap m' (counting (\<lambda>x. right (add_one x))))) 0 =
     (Inr (right (Prim (Number 7))), 2)"
    by (simp add: right_def right_flatMap_def js_bind_def counting_def)
  have e: "counting (\<lambda>x. right (add_one x)) (Prim (Number 5) :: nat jsval) 0 =
     (Inr (right (Prim (Number 6))), 1)"
    by (simp add: counting_def)
  show ?thesis
    using h a b c d e by (simp only: js_return_def)
qed

section \<open>\<^verbatim>\<open>isEither\<close>\<close>

text \<open>
  C7. \<^verbatim>\<open>isEither(v)\<close> is \<^verbatim>\<open>true\<close> exactly when \<open>v\<close> is a structurally tagged \<^verbatim>\<open>Either\<close>
  instance. For every other value the spec, like the declared result type (the type
  predicate \<^verbatim>\<open>value is Either<L, R>\<close>), says \<^verbatim>\<open>false\<close>. The code returns \<^verbatim>\<open>false\<close> for
  the truthy ones, such as \<^verbatim>\<open>42\<close>; for a falsy \<open>v\<close> the chain \<^verbatim>\<open>value && ...\<close> returns
  \<open>v\<close> itself: \<^verbatim>\<open>isEither(null)\<close> is \<^verbatim>\<open>null\<close> and not \<^verbatim>\<open>false\<close>, \<^verbatim>\<open>isEither(undefined)\<close> is
  \<^verbatim>\<open>undefined\<close>, \<^verbatim>\<open>isEither(0)\<close> is \<^verbatim>\<open>0\<close> and \<^verbatim>\<open>isEither("")\<close> is \<^verbatim>\<open>""\<close>.
\<close>

theorem isEither_result:
  "isEither v s = (Inr (if truthy v then Prim (Boolean (structurally_tagged v)) else v), s) \<and>
   (isEither v s = (Inr js_true, s)) = structurally_tagged v \<and>
   isEither (Prim Null) s = (Inr (Prim Null), s) \<and>
   isEither (Prim Null) s \<noteq> (Inr js_false, s) \<and>
   isEither (Prim Undefined) s = (Inr (Prim Undefined), s) \<and>
   isEither (Prim (Number 0)) s = (Inr (Prim (Number 0)), s) \<and>
   isEither (Prim (Str [])) s = (Inr (Prim (Str [])), s) \<and>
   isEither (Prim (Number 42)) s = (Inr js_false, s) \<and>
   isEither (right (Prim (Number 1))) s = (Inr js_true, s)"
proof -
  have a: "isEither v s = (Inr (if truthy v then Prim (Boolean (structurally_tagged v)) else v), s)"
    for v
  proof (cases v)
    case (Prim p)
    then show ?thesis
      by (cases p) (simp_all add: isEither_value)
  qed (simp_all add: isEither_value)
  have b: "(isEither v s = (Inr js_true, s)) = structurally_tagged v"
  proof (cases v)
    case (Prim p)
    then show ?thesis
      by (cases p) (simp_all add: isEither_value)
  qed (simp_all add: isEither_value)
  show ?thesis
    using b by (simp add: a right_def)
qed

section \<open>Totality\<close>

text \<open>
  C9. No operation throws when it is used at its declared types with functions that
  do not throw: on every \<^verbatim>\<open>Either\<close> \<open>m\<close>, \<^verbatim>\<open>map\<close>, \<^verbatim>\<open>flatMap\<close>, their aliases \<^verbatim>\<open><$>\<close> and
  \<^verbatim>\<open>>>=\<close>, \<^verbatim>\<open>getValue\<close>, \<^verbatim>\<open>orElse\<close>, \<^verbatim>\<open>getOrElse\<close>, \<^verbatim>\<open>match\<close>, \<^verbatim>\<open>isLeft\<close> and \<^verbatim>\<open>isRight\<close> return
  a value; so do \<^verbatim>\<open>apply\<close> and \<^verbatim>\<open><*>\<close> on a receiver that is a \<^verbatim>\<open>Left\<close> or a \<^verbatim>\<open>Right\<close>
  holding a function, with an \<^verbatim>\<open>Either\<close> as the argument box; \<^verbatim>\<open>isEither\<close> returns on every
  value at all; and the two constructors build an \<^verbatim>\<open>Either\<close> from every value.
  (\<open>isNone\<close> reads no property and calls nothing: it is a function of its argument.)
\<close>

theorem operations_total:
  "\<lbrakk>either_object m; either_object boxValue; nonThrowing fn; nonThrowing onLeft;
    nonThrowing onRight;
    mf = left e \<or> (\<exists>g. mf = right (Function g) \<and> nonThrowing (run g))\<rbrakk>
   \<Longrightarrow> either_object (left value) \<and> either_object (right value) \<and>
       returns (call_map m fn s) \<and> returns (call_op_map m fn s) \<and>
       returns (call_apply run mf boxValue s) \<and> returns (call_op_apply run mf boxValue s) \<and>
       returns (call_flatMap m fn s) \<and> returns (call_op_flatMap m fn s) \<and>
       returns (call_getValue m s) \<and> returns (call_orElse m d s) \<and>
       returns (call_getOrElse m d s) \<and> returns (call_match m onLeft onRight s) \<and>
       returns (isEither x s) \<and> returns (isLeft m s) \<and> returns (isRight m s)"
  using returns_call_map [of m fn s] returns_call_flatMap [of m fn s]
    returns_call_match [of m onLeft onRight s] returns_extract [of m s d]
    returns_isLeft_isRight [of m s] returns_call_apply [of boxValue mf e run s]
    returns_isEither [of x s]
  by (simp add: left_def right_def)

theorem operations_total_witness:
  "either_object (right (Prim (Number 3)) :: nat jsval) \<and>
   either_object (left (Prim (Str ''e'')) :: nat jsval) \<and>
   nonThrowing (counting add_one :: (nat, nat) fn) \<and>
   returns (call_map (right (Prim (Number 3)) :: nat jsval) (counting add_one) 0) \<and>
   returns (call_apply (\<lambda>f. counting add_one) (right (Function (0::nat)))
      (left (Prim (Str ''e''))) 0) \<and>
   returns (call_flatMap (right (Prim (Number 3)) :: nat jsval) (counting add_one) 0) \<and>
   returns (call_match (right (Prim (Number 3)) :: nat jsval) (counting add_one)
      (counting add_one) 0) \<and>
   returns (isLeft (right (Prim (Number 3)) :: nat jsval) (0::nat))"
proof -
  have m: "either_object (right (Prim (Number 3)) :: nat jsval)"
    by (simp add: right_def)
  have b: "either_object (left (Prim (Str ''e'')) :: nat jsval)"
    by (simp add: left_def)
  have f: "nonThrowing (counting add_one :: (nat, nat) fn)"
    by (rule nonThrowing_counting)
  have r: "right (Function (0::nat)) = left (Prim Null) \<or>
      (\<exists>g. right (Function (0::nat)) = right (Function g) \<and>
        nonThrowing ((\<lambda>f. counting add_one) g :: (nat, nat) fn))"
    using f by blast
  show ?thesis
    using m b f operations_total [OF m b f f f r, where s = "0::nat"]
    by blast
qed

end
